theory Spec2Isabelle
  imports Complex_Main "HOL-Library.Word" "HOL-Library.Log_Nat" "HOL-Library.AList"
    "HOL-Library.Multiset"
begin

section \<open>Numbers of the Go program\<close>

text \<open>
  Go's \<open>int\<close> is taken at its 64-bit width: a \<open>64 word\<close>, read as two's complement
  with \<open>sint\<close>; \<open>+\<close> and \<open>-\<close> wrap around as Go's do. \<open>int32(v)\<close> keeps the low
  32 bits (\<open>ucast\<close>).

  \<open>getCapacity\<close> computes in \<open>float64\<close>. A finite double is modelled by the rational
  it denotes, every operation rounding its exact result to the nearest double, ties to
  even (53 significant bits). The quotients, differences and products that
  \<open>getCapacity\<close> forms from two 64-bit integers stay between \<open>2^-63\<close> and \<open>2^71\<close> in
  magnitude, far inside the normal range, so neither subnormal numbers nor overflow to
  infinity are modelled for finite operands; the sign of zero, which no operation of
  \<open>getCapacity\<close> observes with the positive zero divisor it forms, is not modelled
  either. Division by zero gives the IEEE 754 special values.
\<close>

datatype float64 = Finite rat | PosInf | NegInf | NaN

definition pow2 :: "int \<Rightarrow> rat" where
  "pow2 e = (if 0 \<le> e then 2 ^ nat e else 1 / 2 ^ nat (- e))"

definition floorlog2 :: "rat \<Rightarrow> int" where
  "floorlog2 a = (let (p, q) = quotient_of a; b = bitlen p - bitlen q
                  in if a < pow2 b then b - 1 else b)"

definition round64 :: "rat \<Rightarrow> rat" where
  "round64 q = (if q = 0 then 0 else
     let a = \<bar>q\<bar>; u = pow2 (floorlog2 a - 52); m = a / u; f = \<lfloor>m\<rfloor>; r = m - of_int f;
         k = (if r < 1 / 2 then f else if 1 / 2 < r then f + 1
              else if even f then f else f + 1)
     in sgn q * of_int k * u)"

definition float64_of_int :: "64 word \<Rightarrow> float64" where
  "float64_of_int n = Finite (round64 (of_int (sint n)))"

fun fmul :: "float64 \<Rightarrow> float64 \<Rightarrow> float64" where
  "fmul NaN _ = NaN"
| "fmul _ NaN = NaN"
| "fmul (Finite a) (Finite b) = Finite (round64 (a * b))"
| "fmul (Finite a) PosInf = (if a = 0 then NaN else if 0 < a then PosInf else NegInf)"
| "fmul (Finite a) NegInf = (if a = 0 then NaN else if 0 < a then NegInf else PosInf)"
| "fmul PosInf (Finite b) = (if b = 0 then NaN else if 0 < b then PosInf else NegInf)"
| "fmul NegInf (Finite b) = (if b = 0 then NaN else if 0 < b then NegInf else PosInf)"
| "fmul PosInf PosInf = PosInf"
| "fmul PosInf NegInf = NegInf"
| "fmul NegInf PosInf = NegInf"
| "fmul NegInf NegInf = PosInf"

fun fdiv :: "float64 \<Rightarrow> float64 \<Rightarrow> float64" where
  "fdiv NaN _ = NaN"
| "fdiv _ NaN = NaN"
| "fdiv (Finite a) (Finite b) =
     (if b = 0 then (if a = 0 then NaN else if 0 < a then PosInf else NegInf)
      else Finite (round64 (a / b)))"
| "fdiv (Finite a) PosInf = Finite 0"
| "fdiv (Finite a) NegInf = Finite 0"
| "fdiv PosInf (Finite b) = (if 0 \<le> b then PosInf else NegInf)"
| "fdiv NegInf (Finite b) = (if 0 \<le> b then NegInf else PosInf)"
| "fdiv PosInf PosInf = NaN"
| "fdiv PosInf NegInf = NaN"
| "fdiv NegInf PosInf = NaN"
| "fdiv NegInf NegInf = NaN"

fun fsub :: "float64 \<Rightarrow> float64 \<Rightarrow> float64" where
  "fsub NaN _ = NaN"
| "fsub _ NaN = NaN"
| "fsub (Finite a) (Finite b) = Finite (round64 (a - b))"
| "fsub (Finite a) PosInf = NegInf"
| "fsub (Finite a) NegInf = PosInf"
| "fsub PosInf (Finite b) = PosInf"
| "fsub NegInf (Finite b) = NegInf"
| "fsub PosInf PosInf = NaN"
| "fsub PosInf NegInf = PosInf"
| "fsub NegInf PosInf = NegInf"
| "fsub NegInf NegInf = NaN"

text \<open>
  \<open>int(f)\<close> discards the fraction (truncation towards zero). Where the result type
  cannot represent the value (NaN, an infinity, a magnitude beyond 64 bits) Go leaves the
  converted value to the implementation: that choice is the parameter \<open>conv\<close>.
\<close>

definition int_of_float64 :: "(float64 \<Rightarrow> 64 word) \<Rightarrow> float64 \<Rightarrow> 64 word" where
  "int_of_float64 conv f =
     (case f of
        Finite q \<Rightarrow>
          (let t = (if 0 \<le> q then \<lfloor>q\<rfloor> else - \<lfloor>- q\<rfloor>)
           in if - (2 ^ 63) \<le> t \<and> t < 2 ^ 63 then word_of_int t else conv f)
      | _ \<Rightarrow> conv f)"

section \<open>Data model\<close>

record IDs =
  PlmnID :: string
  CellID :: string
  NodeID :: string

text \<open>
  \<open>storage.Entry.Value\<close> is an \<open>interface{}\<close>: the payload carries its dynamic type,
  and a type assertion \<open>v.(T)\<close> on a payload of another type panics. The four dynamic
  types the controller asserts are \<open>int\<close>, \<open>storage.Neighbors\<close> (a struct whose field
  \<open>Value\<close> is a \<open>[]storage.IDs\<close>), \<open>[]storage.IDs\<close> and \<open>storage.OcnMap\<close> (a struct
  whose field \<open>Value\<close> is a \<open>map[storage.IDs]meastype.QOffsetRange\<close>). A Go map is
  modelled as an association list, the order of the list standing for one of the orders
  in which \<open>range\<close> may visit the map.
\<close>

datatype payload =
    GoInt "64 word"
  | Neighbors "IDs list"
  | IDsSlice "IDs list"
  | OcnMap "(IDs \<times> 64 word) list"

datatype error = NotFound | StoreUnavailable | MonitorError | TypeAssertionPanic

text \<open>
  Modelled from the spec: the \<open>storage.Store\<close> interface, whose implementation
  (package \<open>pkg/store/storage\<close>) is not among the sources. The spec gives it \<open>Get\<close>,
  \<open>Put\<close>, \<open>ListElements\<close> and \<open>ListKeys\<close>, the listings being finite sequences and
  the errors \<open>NotFound\<close> (missing key) and \<open>StoreUnavailable\<close> (connectivity failure).
\<close>

record store =
  available :: bool
  entries :: "(IDs \<times> payload) list"

definition Get :: "store \<Rightarrow> IDs \<Rightarrow> error + payload" where
  "Get s key =
     (if \<not> available s then Inl StoreUnavailable
      else case map_of (entries s) key of None \<Rightarrow> Inl NotFound | Some v \<Rightarrow> Inr v)"

definition Put :: "store \<Rightarrow> IDs \<Rightarrow> payload \<Rightarrow> error + store" where
  "Put s key v =
     (if \<not> available s then Inl StoreUnavailable
      else Inr (s\<lparr>entries := AList.update key v (entries s)\<rparr>))"

definition ListElements :: "store \<Rightarrow> error + (IDs \<times> payload) list" where
  "ListElements s = (if \<not> available s then Inl StoreUnavailable else Inr (entries s))"

definition ListKeys :: "store \<Rightarrow> error + IDs list" where
  "ListKeys s = (if \<not> available s then Inl StoreUnavailable else Inr (map fst (entries s)))"

text \<open>
  The constants of package \<open>meastype\<close> (library \<open>rrm-son-lib\<close>, not part of this
  repository) and the implementation's conversion of unrepresentable floats are
  parameters of the model. \<open>QOffsetRange\<close> is taken as an integer type of Go's \<open>int\<close>
  width.
\<close>

record extern =
  QOffsetMinus24dB :: "64 word"
  QOffset0dB :: "64 word"
  QOffset24dB :: "64 word"
  convUnrepresentable :: "float64 \<Rightarrow> 64 word"

definition RcPreRanParamDefaultOCN :: "extern \<Rightarrow> 64 word" where
  "RcPreRanParamDefaultOCN x = QOffset0dB x"

definition OCNDeltaFactor :: "64 word" where
  "OCNDeltaFactor = 3"

text \<open>
  The handler. The southbound \<open>e2controlHandler\<close> is represented by the calls of
  \<open>SendControlMessage\<close> made so far (target cell, serving node, offset), oldest first;
  the monitor handler is passed to \<open>StartControlLogic\<close> as a function. The field
  \<open>capacityCalls\<close> is a ghost trace that is not in the Go struct: the arguments
  \<open>(totalNumUEs, numUEs)\<close> of every call of \<open>getCapacity\<close>, oldest first.
\<close>

type_synonym control_message = "IDs \<times> string \<times> 32 word"

record handler =
  e2controlHandler :: "control_message list"
  numUEsMeasStore :: store
  neighborMeasStore :: store
  statisticsStore :: store
  ocnStore :: store
  interval :: "64 word"
  overloadThreshold :: "64 word"
  targetThreshold :: "64 word"
  capacityCalls :: "(64 word \<times> 64 word) list"

definition SendControlMessage :: "IDs \<Rightarrow> string \<Rightarrow> 32 word \<Rightarrow> handler \<Rightarrow> handler" where
  "SendControlMessage nCellID nodeID offset h =
     h\<lparr>e2controlHandler := e2controlHandler h @ [(nCellID, nodeID, offset)]\<rparr>"

section \<open>The controller (handler.go)\<close>

fun containsIDs :: "IDs \<Rightarrow> IDs list \<Rightarrow> bool" where
  "containsIDs ids [] = False"
| "containsIDs ids (e # idsList) = (if e = ids then True else containsIDs ids idsList)"

fun findIDWithCGI :: "string \<Rightarrow> string \<Rightarrow> IDs list \<Rightarrow> error + IDs" where
  "findIDWithCGI plmnid cid [] = Inl NotFound"
| "findIDWithCGI plmnid cid (cell # cells) =
     (if PlmnID cell = plmnid \<and> CellID cell = cid then Inr cell
      else findIDWithCGI plmnid cid cells)"

text \<open>
  \<open>numUE\<close> returns Go's pair \<open>(int, error)\<close>. A failed assertion \<open>entry.Value.(int)\<close>
  is the pair \<open>(0, Some TypeAssertionPanic)\<close>, which every caller lets through as the
  panic it is.
\<close>

definition numUE :: "handler \<Rightarrow> string \<Rightarrow> string \<Rightarrow> IDs list \<Rightarrow> 64 word \<times> error option" where
  "numUE h plmnID cid cells =
     (case findIDWithCGI plmnID cid cells of
        Inl err \<Rightarrow> (0, Some err)
      | Inr storageID \<Rightarrow>
          (case Get (numUEsMeasStore h) storageID of
             Inl err \<Rightarrow> (0, Some err)
           | Inr (GoInt n) \<Rightarrow> (n, None)
           | Inr _ \<Rightarrow> (0, Some TypeAssertionPanic)))"

definition getCapacity :: "(float64 \<Rightarrow> 64 word) \<Rightarrow> float64 \<Rightarrow> 64 word \<Rightarrow> 64 word \<Rightarrow> 64 word" where
  "getCapacity conv denominationFactor totalNumUEs numUEs =
     int_of_float64 conv
       (fmul (fsub (Finite 1)
                (fdiv (float64_of_int numUEs)
                   (fmul denominationFactor (float64_of_int totalNumUEs))))
          (Finite 100))"

definition traceCapacity :: "64 word \<Rightarrow> 64 word \<Rightarrow> handler \<Rightarrow> handler" where
  "traceCapacity totalNumUEs numUEs h =
     h\<lparr>capacityCalls := capacityCalls h @ [(totalNumUEs, numUEs)]\<rparr>"

text \<open>The index expression \<open>m[k]\<close> of a Go map: the zero value for a missing key.\<close>

definition mapIndex :: "(IDs \<times> 64 word) list \<Rightarrow> IDs \<Rightarrow> 64 word" where
  "mapIndex m k = (case map_of m k of None \<Rightarrow> 0 | Some v \<Rightarrow> v)"

text \<open>Lines 210 to 214: the offset the offload rule sends.\<close>

definition reducedOcn :: "extern \<Rightarrow> 64 word \<Rightarrow> 64 word" where
  "reducedOcn x ocn =
     (if sint (ocn - OCNDeltaFactor) < sint (QOffsetMinus24dB x) then QOffsetMinus24dB x
      else ocn - OCNDeltaFactor)"

text \<open>Lines 235 to 239: the offset the overload relief rule sends.\<close>

definition increasedOcn :: "extern \<Rightarrow> 64 word \<Rightarrow> 64 word" where
  "increasedOcn x ocn =
     (if sint (QOffsetMinus24dB x) < sint (ocn + OCNDeltaFactor) then QOffset24dB x
      else ocn + OCNDeltaFactor)"

text \<open>Lines 204 to 217: the loop of the offload rule.\<close>

fun offloadLoop :: "extern \<Rightarrow> IDs \<Rightarrow> IDs list \<Rightarrow> handler \<Rightarrow> error option \<times> handler" where
  "offloadLoop x ids [] h = (None, h)"
| "offloadLoop x ids (nCellID # neighborList) h =
     (case Get (ocnStore h) ids of
        Inl err \<Rightarrow> (Some err, h)
      | Inr (OcnMap m) \<Rightarrow>
          offloadLoop x ids neighborList
            (SendControlMessage nCellID (NodeID ids) (ucast (reducedOcn x (mapIndex m nCellID))) h)
      | Inr _ \<Rightarrow> (Some TypeAssertionPanic, h))"

text \<open>Lines 223 to 242: the loop of the overload relief rule.\<close>

fun overloadLoop ::
  "extern \<Rightarrow> IDs \<Rightarrow> IDs list \<Rightarrow> 64 word \<Rightarrow> IDs list \<Rightarrow> handler \<Rightarrow> error option \<times> handler" where
  "overloadLoop x ids cells totalNumUEs [] h = (None, h)"
| "overloadLoop x ids cells totalNumUEs (nCellID # neighborList) h =
     (case numUE h (PlmnID nCellID) (CellID nCellID) cells of
        (numUEsNCell, err) \<Rightarrow>
          if err = Some TypeAssertionPanic then (err, h)
          else
            let capNCell = getCapacity (convUnrepresentable x) (Finite 1) totalNumUEs numUEsNCell;
                h1 = traceCapacity totalNumUEs numUEsNCell h
            in if sint (1 - capNCell) < sint (targetThreshold h1) then
                 (case Get (ocnStore h1) ids of
                    Inl err \<Rightarrow> (Some err, h1)
                  | Inr (OcnMap m) \<Rightarrow>
                      overloadLoop x ids cells totalNumUEs neighborList
                        (SendControlMessage nCellID (NodeID ids)
                           (ucast (increasedOcn x (mapIndex m nCellID))) h1)
                  | Inr _ \<Rightarrow> (Some TypeAssertionPanic, h1))
               else overloadLoop x ids cells totalNumUEs neighborList h1)"

definition controlLogicEachCell ::
  "extern \<Rightarrow> IDs \<Rightarrow> IDs list \<Rightarrow> 64 word \<Rightarrow> handler \<Rightarrow> error option \<times> handler" where
  "controlLogicEachCell x ids cells totalNumUEs h =
     (case Get (neighborMeasStore h) ids of
        Inl err \<Rightarrow> (Some err, h)
      | Inr (IDsSlice neighborList) \<Rightarrow>
          (case numUE h (PlmnID ids) (CellID ids) cells of
             (numUEsSCell, Some err) \<Rightarrow> (Some err, h)
           | (numUEsSCell, None) \<Rightarrow>
               let capSCell = getCapacity (convUnrepresentable x) (Finite 1) totalNumUEs numUEsSCell;
                   h1 = traceCapacity totalNumUEs numUEsSCell h;
                   (err, h2) = (if sint (1 - capSCell) < sint (targetThreshold h1)
                                then offloadLoop x ids neighborList h1 else (None, h1))
               in if err \<noteq> None then (err, h2)
                  else if sint (overloadThreshold h2) < sint (1 - capSCell)
                  then overloadLoop x ids cells totalNumUEs neighborList h2
                  else (None, h2))
      | Inr _ \<Rightarrow> (Some TypeAssertionPanic, h))"

text \<open>Lines 122 to 125: the offset map of a newly connected cell.\<close>

definition newOcnMap :: "extern \<Rightarrow> IDs list \<Rightarrow> (IDs \<times> 64 word) list" where
  "newOcnMap x neighborList =
     fold (\<lambda>nIDs nOcnMap. AList.update nIDs (RcPreRanParamDefaultOCN x) nOcnMap) neighborList []"

text \<open>
  Lines 135 to 139: deleting from a Go map while ranging over it is allowed, and only the
  key in hand is deleted, so every key of the map is visited and kept or deleted.
\<close>

definition deleteRemoved :: "IDs list \<Rightarrow> (IDs \<times> 64 word) list \<Rightarrow> (IDs \<times> 64 word) list" where
  "deleteRemoved neighborList nOcnMap = filter (\<lambda>(k, _). containsIDs k neighborList) nOcnMap"

text \<open>Lines 141 to 145.\<close>

definition addNew :: "extern \<Rightarrow> IDs list \<Rightarrow> (IDs \<times> 64 word) list \<Rightarrow> (IDs \<times> 64 word) list" where
  "addNew x neighborList nOcnMap =
     fold (\<lambda>n m. if map_of m n = None then AList.update n (RcPreRanParamDefaultOCN x) m else m)
       neighborList nOcnMap"

text \<open>
  Lines 116 to 147. In the branch of a known cell the Go code changes, in place, the map
  that the stored entry refers to: the entry of the store changes without a \<open>Put\<close>.
\<close>

fun updateOcnLoop :: "extern \<Rightarrow> (IDs \<times> payload) list \<Rightarrow> handler \<Rightarrow> error option \<times> handler" where
  "updateOcnLoop x [] h = (None, h)"
| "updateOcnLoop x ((ids, v) # es) h =
     (case v of
        Neighbors neighborList \<Rightarrow>
          (case Get (ocnStore h) ids of
             Inl _ \<Rightarrow>
               (case Put (ocnStore h) ids (OcnMap (newOcnMap x neighborList)) of
                  Inl err \<Rightarrow> (Some err, h)
                | Inr s \<Rightarrow> updateOcnLoop x es (h\<lparr>ocnStore := s\<rparr>))
           | Inr (OcnMap nOcnMap) \<Rightarrow>
               updateOcnLoop x es
                 (h\<lparr>ocnStore := (ocnStore h)\<lparr>entries :=
                      AList.update ids
                        (OcnMap (addNew x neighborList (deleteRemoved neighborList nOcnMap)))
                        (entries (ocnStore h))\<rparr>\<rparr>)
           | Inr _ \<Rightarrow> (Some TypeAssertionPanic, h))
      | _ \<Rightarrow> (Some TypeAssertionPanic, h))"

definition updateOcnStore :: "extern \<Rightarrow> handler \<Rightarrow> error option \<times> handler" where
  "updateOcnStore x h =
     (case ListElements (neighborMeasStore h) of
        Inl err \<Rightarrow> (Some err, h)
      | Inr es \<Rightarrow> updateOcnLoop x es h)"

fun sumNumUEs :: "(IDs \<times> payload) list \<Rightarrow> 64 word \<Rightarrow> 64 word \<times> error option" where
  "sumNumUEs [] result = (result, None)"
| "sumNumUEs ((k, v) # es) result =
     (case v of
        GoInt n \<Rightarrow> sumNumUEs es (result + n)
      | _ \<Rightarrow> (result, Some TypeAssertionPanic))"

definition getTotalNumUEs :: "handler \<Rightarrow> 64 word \<times> error option" where
  "getTotalNumUEs h =
     (case ListElements (numUEsMeasStore h) of
        Inl err \<Rightarrow> (0, Some err)
      | Inr es \<Rightarrow> sumNumUEs es 0)"

definition getCellList :: "handler \<Rightarrow> IDs list \<times> error option" where
  "getCellList h =
     (case ListKeys (numUEsMeasStore h) of
        Inl err \<Rightarrow> ([], Some err)
      | Inr ks \<Rightarrow> (fold (\<lambda>k result. result @ [k]) ks [], None))"

text \<open>Lines 100 to 106.\<close>

fun cellsLoop ::
  "extern \<Rightarrow> IDs list \<Rightarrow> IDs list \<Rightarrow> 64 word \<Rightarrow> handler \<Rightarrow> error option \<times> handler" where
  "cellsLoop x [] cells totalNumUEs h = (None, h)"
| "cellsLoop x (cell # rest) cells totalNumUEs h =
     (case controlLogicEachCell x cell cells totalNumUEs h of
        (Some err, h') \<Rightarrow> (Some err, h')
      | (None, h') \<Rightarrow> cellsLoop x rest cells totalNumUEs h')"

text \<open>
  \<open>StartControlLogic\<close> returns nothing in Go. The model returns, beside the handler,
  the error that the tick logged before it returned early (or the panic that ended it),
  and \<open>None\<close> for a tick that ran through. The monitor, whose code is outside the
  sources, is the parameter \<open>Monitor\<close>.
\<close>

definition StartControlLogic ::
  "(handler \<Rightarrow> error option \<times> handler) \<Rightarrow> extern \<Rightarrow> handler \<Rightarrow> error option \<times> handler" where
  "StartControlLogic Monitor x h =
     (case Monitor h of
        (Some err, h1) \<Rightarrow> (Some err, h1)
      | (None, h1) \<Rightarrow>
          (case updateOcnStore x h1 of
             (Some err, h2) \<Rightarrow> (Some err, h2)
           | (None, h2) \<Rightarrow>
               (case getTotalNumUEs h2 of
                  (totalNumUEs, Some err) \<Rightarrow> (Some err, h2)
                | (totalNumUEs, None) \<Rightarrow>
                    (case getCellList h2 of
                       (cells, Some err) \<Rightarrow> (Some err, h2)
                     | (cells, None) \<Rightarrow> cellsLoop x cells cells totalNumUEs h2))))"

text \<open>
  \<open>Run\<close> loops over a \<open>select\<close> of the timer and of \<open>ctx.Done()\<close>. Which case each
  \<open>select\<close> takes is decided outside the program (by time, and by chance when both are
  ready): the model takes the sequence of these decisions as an argument. \<open>None\<close> means
  that \<open>Run\<close> has not returned after the decisions given; a panic of a tick ends
  \<open>Run\<close> with that panic.
\<close>

datatype select_case = TimerFired | CtxDone

fun Run ::
  "(handler \<Rightarrow> error option \<times> handler) \<Rightarrow> extern \<Rightarrow> select_case list \<Rightarrow> handler
     \<Rightarrow> (error option \<times> handler) option" where
  "Run Monitor x [] h = None"
| "Run Monitor x (CtxDone # sel) h = Some (None, h)"
| "Run Monitor x (TimerFired # sel) h =
     (case StartControlLogic Monitor x h of
        (err, h') \<Rightarrow>
          if err = Some TypeAssertionPanic then Some (err, h') else Run Monitor x sel h')"

section \<open>The watcher registry (watcher.go)\<close>

text \<open>
  A channel is known by its identity; what has been sent on each channel so far is a
  function from channels to event sequences. The goroutine that \<open>Send\<close> starts is
  modelled as running to its end before the next operation on the registry, every send
  being received. The mutex has no counterpart in this sequential model.
\<close>

type_synonym uuid = "128 word"

type_synonym chan = nat

record Watcher =
  id' :: uuid
  ch :: chan

record Watchers =
  watchers :: "(uuid \<times> Watcher) list"

definition NewWatchers :: Watchers where
  "NewWatchers = \<lparr>watchers = []\<rparr>"

fun sendLoop :: "(uuid \<times> Watcher) list \<Rightarrow> 'e \<Rightarrow> (chan \<Rightarrow> 'e list) \<Rightarrow> (chan \<Rightarrow> 'e list)" where
  "sendLoop [] event chans = chans"
| "sendLoop ((k, watcher) # rest) event chans =
     sendLoop rest event (chans(ch watcher := chans (ch watcher) @ [event]))"

definition Send :: "Watchers \<Rightarrow> 'e \<Rightarrow> (chan \<Rightarrow> 'e list) \<Rightarrow> (chan \<Rightarrow> 'e list)" where
  "Send ws event chans = sendLoop (watchers ws) event chans"

definition AddWatcher :: "Watchers \<Rightarrow> uuid \<Rightarrow> chan \<Rightarrow> Watchers \<times> error option" where
  "AddWatcher ws i c = (ws\<lparr>watchers := AList.update i \<lparr>id' = i, ch = c\<rparr> (watchers ws)\<rparr>, None)"

fun removeLoop :: "uuid \<Rightarrow> (uuid \<times> Watcher) list \<Rightarrow> (uuid \<times> Watcher) list \<Rightarrow> (uuid \<times> Watcher) list" where
  "removeLoop i [] new = new"
| "removeLoop i ((k, watcher) # rest) new =
     removeLoop i rest (if id' watcher \<noteq> i then AList.update i watcher new else new)"

definition RemoveWatcher :: "Watchers \<Rightarrow> uuid \<Rightarrow> Watchers \<times> error option" where
  "RemoveWatcher ws i = (ws\<lparr>watchers := removeLoop i (watchers ws) []\<rparr>, None)"

section \<open>Example states\<close>

text \<open>
  Concrete inputs for the closed theorems below. \<open>levels\<close> numbers the 31 offset levels
  in the order of their enumeration (-24 dB is 0, 0 dB is 15, 24 dB is 30) and converts
  an unrepresentable float to 0. \<open>twoCells\<close> is a handler over two cells, \<open>cellA\<close>
  with the single neighbor \<open>cellB\<close> at the default offset.
\<close>

definition cellA :: IDs where
  "cellA = \<lparr>PlmnID = ''p'', CellID = ''a'', NodeID = ''n1''\<rparr>"

definition cellB :: IDs where
  "cellB = \<lparr>PlmnID = ''p'', CellID = ''b'', NodeID = ''n2''\<rparr>"

definition levels :: extern where
  "levels = \<lparr>QOffsetMinus24dB = 0, QOffset0dB = 15, QOffset24dB = 30,
              convUnrepresentable = (\<lambda>f. 0)\<rparr>"

definition twoCells :: "64 word \<Rightarrow> 64 word \<Rightarrow> 64 word \<Rightarrow> 64 word \<Rightarrow> handler" where
  "twoCells numA numB overload target =
     \<lparr>e2controlHandler = [],
      numUEsMeasStore =
        \<lparr>available = True, entries = [(cellA, GoInt numA), (cellB, GoInt numB)]\<rparr>,
      neighborMeasStore = \<lparr>available = True, entries = [(cellA, IDsSlice [cellB])]\<rparr>,
      statisticsStore = \<lparr>available = True, entries = []\<rparr>,
      ocnStore = \<lparr>available = True, entries = [(cellA, OcnMap [(cellB, 15)])]\<rparr>,
      interval = 1, overloadThreshold = overload, targetThreshold = target,
      capacityCalls = []\<rparr>"

text \<open>
  \<open>loneCell\<close>: the serving cell holds all 200 UEs and its neighbor has no UE-count
  entry. \<open>idleCell\<close>: one cell with a zero count, and no neighbor list stored for it.
  \<open>staleOcn\<close>: the stored offset map of \<open>cellA\<close> names a cell that is no longer a
  neighbor and lacks one that is. \<open>noMonitor\<close> is a monitor that changes nothing.
\<close>

definition cellC :: IDs where
  "cellC = \<lparr>PlmnID = ''p'', CellID = ''c'', NodeID = ''n3''\<rparr>"

definition cellD :: IDs where
  "cellD = \<lparr>PlmnID = ''p'', CellID = ''d'', NodeID = ''n4''\<rparr>"



definition staleOcn :: handler where
  "staleOcn = (twoCells 100 100 60 40)
     \<lparr>neighborMeasStore :=
        \<lparr>available = True, entries = [(cellA, Neighbors [cellB, cellC]),
                                      (cellB, Neighbors [cellA])]\<rparr>,
      ocnStore := \<lparr>available = True, entries = [(cellA, OcnMap [(cellB, 12), (cellD, 9)])]\<rparr>\<rparr>"


definition threeWatchers :: Watchers where
  "threeWatchers =
     \<lparr>watchers = [(1, \<lparr>id' = 1, ch = 10\<rparr>), (2, \<lparr>id' = 2, ch = 20\<rparr>),
                  (3, \<lparr>id' = 3, ch = 30\<rparr>)]\<rparr>"

section \<open>Notions used to state the claims\<close>


text \<open>
  The offset map that lines 120 to 146 leave for a cell with neighbor list \<open>nl\<close>, given
  what the OCN store held for the cell before.
\<close>

definition reconciled :: "extern \<Rightarrow> IDs list \<Rightarrow> payload option \<Rightarrow> (IDs \<times> 64 word) list" where
  "reconciled x nl old =
     (case old of
        Some (OcnMap m0) \<Rightarrow> addNew x nl (deleteRemoved nl m0)
      | _ \<Rightarrow> newOcnMap x nl)"

section \<open>Machine arithmetic\<close>

lemma sint_int32:
  assumes "- (2 ^ 31) \<le> sint (w :: 64 word)" and "sint w < 2 ^ 31"
  shows "sint (ucast w :: 32 word) = sint w"
proof -
  have "sint (ucast w :: 32 word) = signed_take_bit (LENGTH(32) - 1) (uint w)"
    by (simp only: ucast_eq sint_sbintrunc')
  also have "\<dots> = signed_take_bit 31 (take_bit 64 (sint w))"
    by (simp only: uint_sint) simp
  also have "\<dots> = signed_take_bit 31 (sint w)"
    by (simp only: signed_take_bit_take_bit) simp
  also have "\<dots> = sint w"
    using assms by (simp only: signed_take_bit_int_eq_self)
  finally show ?thesis .
qed

lemma sint_sub3:
  assumes "- (2 ^ 63) + 3 \<le> sint (w :: 64 word)"
  shows "sint (w - 3) = sint w - 3"
proof -
  have "sint w < 2 ^ 63" using sint_lt [of w] by simp
  then show ?thesis using assms
    by (simp add: sint_word_diff signed_take_bit_int_eq_self)
qed

lemma reducedOcn_sint:
  assumes "- (2 ^ 31) \<le> sint ocn"
  shows "sint (reducedOcn x ocn) =
           (if sint (QOffsetMinus24dB x) \<le> sint ocn - sint OCNDeltaFactor
            then sint ocn - sint OCNDeltaFactor else sint (QOffsetMinus24dB x))"
proof -
  have "sint (ocn - 3) = sint ocn - 3"
    using assms by (intro sint_sub3) simp
  then show ?thesis
    by (simp add: reducedOcn_def OCNDeltaFactor_def)
qed

text \<open>Values of the rounding function, computed by the kernel.\<close>

lemma round64_0: "round64 0 = 0"
  by (simp add: round64_def)

lemma round64_1: "round64 1 = 1"
  by code_simp

lemma round64_half: "round64 (1 / 2) = 1 / 2"
  by code_simp

lemma round64_50: "round64 50 = 50"
  by code_simp

lemma round64_100: "round64 100 = 100"
  by code_simp

lemma round64_200: "round64 200 = 200"
  by code_simp

lemma getCapacity_200_100: "getCapacity c (Finite 1) 200 100 = 50"
  by (simp add: getCapacity_def int_of_float64_def float64_of_int_def
      round64_100 round64_200 round64_50 round64_half)

lemma getCapacity_200_200: "getCapacity c (Finite 1) 200 200 = 0"
  by (simp add: getCapacity_def int_of_float64_def float64_of_int_def
      round64_200 round64_1 round64_0)

lemma getCapacity_200_0: "getCapacity c (Finite 1) 200 0 = 100"
  by (simp add: getCapacity_def int_of_float64_def float64_of_int_def
      round64_200 round64_1 round64_100 round64_0)

lemma cellA_neq_cellB: "cellA \<noteq> cellB" "cellB \<noteq> cellA"
  by (simp_all add: cellA_def cellB_def)

lemma cell_fields:
  "PlmnID cellA = ''p''" "CellID cellA = ''a''" "NodeID cellA = ''n1''"
  "PlmnID cellB = ''p''" "CellID cellB = ''b''" "NodeID cellB = ''n2''"
  by (simp_all add: cellA_def cellB_def)

lemmas twoCells_eval =
  controlLogicEachCell_def twoCells_def Get_def numUE_def traceCapacity_def
  SendControlMessage_def reducedOcn_def increasedOcn_def mapIndex_def OCNDeltaFactor_def
  levels_def cellA_neq_cellB cell_fields getCapacity_200_100 getCapacity_200_200
  getCapacity_200_0

section \<open>The decision loops\<close>



lemma offloadLoop_sends:
  assumes "Get (ocnStore h) ids = Inr (OcnMap m)"
  shows "offloadLoop x ids nl h =
           (None, h\<lparr>e2controlHandler := e2controlHandler h @
              map (\<lambda>n. (n, NodeID ids, ucast (reducedOcn x (mapIndex m n)))) nl\<rparr>)"
  using assms
  by (induction nl arbitrary: h) (simp_all add: SendControlMessage_def)

lemma overloadLoop_keeps_sent:
  "j < length (e2controlHandler h) \<Longrightarrow>
   e2controlHandler (snd (overloadLoop x ids cells t nl h)) ! j = e2controlHandler h ! j"
  by (induction nl arbitrary: h)
    (simp_all add: SendControlMessage_def traceCapacity_def Let_def nth_append
       split: sum.splits payload.splits prod.splits)

section \<open>Claims about the decision rules\<close>

text \<open>
  C1 (code defect). The claim: the offload rule fires exactly when
  \<open>load(S) < targetThreshold\<close>, with \<open>load(S) = 100 - capacity(S)\<close>. The code
  compares \<open>1 - capSCell\<close> with the threshold, although \<open>getCapacity\<close> returns a
  percentage. With 100 of 200 UEs on the serving cell the capacity is 50 and the load 50,
  which is not below the target threshold 40; the code computes \<open>1 - 50 = -49 < 40\<close>,
  runs the offload rule and sends the reduced offset 12 for the neighbor.
\<close>

theorem offload_fires_at_load_50:
  "controlLogicEachCell levels cellA [cellA, cellB] 200 (twoCells 100 100 60 40)
     = (None, (twoCells 100 100 60 40)\<lparr>e2controlHandler := [(cellB, ''n1'', 12)],
           capacityCalls := [(200, 100)]\<rparr>)"
  by (simp add: twoCells_eval)

text \<open>
  C2 (code defect). The claim: an overload relief decision sends the current offset
  increased by the step, clamped at the maximum. The code tests
  \<open>ocn + OCNDeltaFactor > QOffsetMinus24dB\<close>, the minimum, where the offload rule's
  mirror image tests against the bound it assigns. With the serving cell holding all 200
  UEs, thresholds 0 and 1 and the neighbor's offset at 15, the value sent is the maximum
  30 and not 18.
\<close>

theorem overload_relief_sends_max_offset:
  "controlLogicEachCell levels cellA [cellA, cellB] 200 (twoCells 200 0 0 1)
     = (None, (twoCells 200 0 0 1)\<lparr>e2controlHandler := [(cellB, ''n1'', 30)],
           capacityCalls := [(200, 200), (200, 0)]\<rparr>)"
  by (simp add: twoCells_eval)



text \<open>
  C7 (confirmed). When the offload rule fires for a serving cell whose lookups succeed,
  the message sent for the \<open>i\<close>-th neighbor carries the stored offset of that neighbor
  decreased by \<open>OCNDeltaFactor\<close> if that is not below \<open>QOffsetMinus24dB\<close>, and
  \<open>QOffsetMinus24dB\<close> otherwise; it is never below \<open>QOffsetMinus24dB\<close>. The
  stored offset and the bound are values that \<open>int32\<close> represents.
\<close>

theorem offload_sends_clamped_decrease:
  assumes nb: "Get (neighborMeasStore h) ids = Inr (IDsSlice neighborList)"
    and s: "numUE h (PlmnID ids) (CellID ids) cells = (numUEsSCell, None)"
    and fires:
      "sint (1 - getCapacity (convUnrepresentable x) (Finite 1) totalNumUEs numUEsSCell)
         < sint (targetThreshold h)"
    and ocn: "Get (ocnStore h) ids = Inr (OcnMap m)"
    and i: "i < length neighborList"
    and lo: "- (2 ^ 31) \<le> sint (QOffsetMinus24dB x)"
    and hi: "sint (QOffsetMinus24dB x) < 2 ^ 31"
    and olo: "- (2 ^ 31) \<le> sint (mapIndex m (neighborList ! i))"
    and ohi: "sint (mapIndex m (neighborList ! i)) < 2 ^ 31"
  shows "\<exists>v. e2controlHandler (snd (controlLogicEachCell x ids cells totalNumUEs h))
                ! (length (e2controlHandler h) + i) = (neighborList ! i, NodeID ids, v) \<and>
             sint v = (if sint (QOffsetMinus24dB x)
                            \<le> sint (mapIndex m (neighborList ! i)) - sint OCNDeltaFactor
                       then sint (mapIndex m (neighborList ! i)) - sint OCNDeltaFactor
                       else sint (QOffsetMinus24dB x)) \<and>
             sint (QOffsetMinus24dB x) \<le> sint v"
proof -
  let ?h1 = "traceCapacity totalNumUEs numUEsSCell h"
  let ?f = "\<lambda>n. (n, NodeID ids, ucast (reducedOcn x (mapIndex m n)) :: 32 word)"
  let ?h2 = "?h1\<lparr>e2controlHandler := e2controlHandler ?h1 @ map ?f neighborList\<rparr>"
  let ?r = "controlLogicEachCell x ids cells totalNumUEs h"
  let ?ocn = "mapIndex m (neighborList ! i)"
  have off: "offloadLoop x ids neighborList ?h1 = (None, ?h2)"
    using ocn by (intro offloadLoop_sends) (simp add: traceCapacity_def)
  have e2: "e2controlHandler ?h2 = e2controlHandler h @ map ?f neighborList"
    by (simp add: traceCapacity_def)
  have j: "length (e2controlHandler h) + i < length (e2controlHandler ?h2)"
    using i by (simp add: e2)
  have "e2controlHandler (snd ?r) ! (length (e2controlHandler h) + i)
          = e2controlHandler ?h2 ! (length (e2controlHandler h) + i)"
  proof (cases "sint (overloadThreshold ?h2)
      < sint (1 - getCapacity (convUnrepresentable x) (Finite 1) totalNumUEs numUEsSCell)")
    case True
    then have "snd ?r = snd (overloadLoop x ids cells totalNumUEs neighborList ?h2)"
      using nb s fires off
      by (simp add: controlLogicEachCell_def Let_def traceCapacity_def)
    then show ?thesis using overloadLoop_keeps_sent [OF j] by simp
  next
    case False
    then have "snd ?r = ?h2"
      using nb s fires off
      by (simp add: controlLogicEachCell_def Let_def traceCapacity_def)
    then show ?thesis by simp
  qed
  also have "\<dots> = ?f (neighborList ! i)"
    using i by (simp add: e2 nth_append)
  finally have msg: "e2controlHandler (snd ?r) ! (length (e2controlHandler h) + i)
      = (neighborList ! i, NodeID ids, ucast (reducedOcn x ?ocn))" .
  have red: "sint (reducedOcn x ?ocn) =
           (if sint (QOffsetMinus24dB x) \<le> sint ?ocn - sint OCNDeltaFactor
            then sint ?ocn - sint OCNDeltaFactor else sint (QOffsetMinus24dB x))"
    using olo by (rule reducedOcn_sint)
  have d: "sint OCNDeltaFactor = 3" by (simp add: OCNDeltaFactor_def)
  have "- (2 ^ 31) \<le> sint (reducedOcn x ?ocn)" "sint (reducedOcn x ?ocn) < 2 ^ 31"
    using lo hi olo ohi by (simp_all add: red d)
  then have "sint (ucast (reducedOcn x ?ocn) :: 32 word) = sint (reducedOcn x ?ocn)"
    by (rule sint_int32)
  then show ?thesis
    using msg red by auto
qed

theorem offload_sends_clamped_decrease_witness:
  "\<exists>v. e2controlHandler
          (snd (controlLogicEachCell levels cellA [cellA, cellB] 200 (twoCells 100 100 60 40)))
          ! 0 = (cellB, ''n1'', v) \<and> sint v = 12 \<and> 0 \<le> sint v"
  using offload_sends_clamped_decrease
    [of "twoCells 100 100 60 40" cellA "[cellB]" "[cellA, cellB]" 100 levels 200
      "[(cellB, 15)]" 0]
  by (simp add: twoCells_eval)

lemma sint_add3:
  assumes "sint (w :: 64 word) < 2 ^ 63 - 3"
  shows "sint (w + 3) = sint w + 3"
proof -
  have "- (2 ^ 63) \<le> sint w" using sint_ge [of w] by simp
  then show ?thesis using assms
    by (simp add: sint_word_add signed_take_bit_int_eq_self)
qed

text \<open>
  For every stored offset not below the minimum (and short of overflow), line 235 holds
  and the overload relief rule sends the maximum.
\<close>

lemma increasedOcn_is_max:
  assumes "sint (QOffsetMinus24dB x) \<le> sint ocn" and "sint ocn < 2 ^ 63 - 3"
  shows "increasedOcn x ocn = QOffset24dB x"
proof -
  have "sint (ocn + 3) = sint ocn + 3"
    using assms(2) by (rule sint_add3)
  then show ?thesis
    using assms(1) by (simp add: increasedOcn_def OCNDeltaFactor_def)
qed













section \<open>The run loop\<close>



lemma Run_returns_nil_or_panics:
  "Run Monitor x sel h = Some (e, h') \<Longrightarrow> e = None \<or> e = Some TypeAssertionPanic"
proof (induction sel arbitrary: h)
  case Nil
  then show ?case by simp
next
  case (Cons c sel)
  then show ?case
    by (cases c) (auto simp add: case_prod_beta split: if_splits)
qed




section \<open>Claims about the watcher registry\<close>



text \<open>
  C5 (code defect). The claim: after \<open>RemoveWatcher(id)\<close> every other watcher is still
  registered and receives a later event. The loop stores every kept watcher under the key
  \<open>id\<close> of the removed one (\<open>watchers[id] = watcher\<close>), so the new map has a single
  entry. With watchers 1, 2 and 3 registered, removing 1 leaves only watcher 3, under key
  1; the event sent next reaches channel 30 and not channel 20.
\<close>

theorem RemoveWatcher_keeps_one_watcher:
  "watchers (fst (RemoveWatcher threeWatchers 1)) = [(1, \<lparr>id' = 3, ch = 30\<rparr>)] \<and>
   Send (fst (RemoveWatcher threeWatchers 1)) (7 :: nat) (\<lambda>c. []) 20 = [] \<and>
   Send (fst (RemoveWatcher threeWatchers 1)) (7 :: nat) (\<lambda>c. []) 30 = [7] \<and>
   Send (fst (RemoveWatcher threeWatchers 1)) (7 :: nat) (\<lambda>c. []) 10 = []"
  by (simp add: RemoveWatcher_def threeWatchers_def Send_def)

section \<open>Reconciliation of the OCN store\<close>

lemma containsIDs_iff: "containsIDs k nl \<longleftrightarrow> k \<in> set nl"
  by (induction nl) auto

lemma map_of_newOcnMap_aux:
  "map_of (fold (\<lambda>n m. AList.update n d m) nl acc) k =
     (if k \<in> set nl then Some d else map_of acc k)"
  by (induction nl arbitrary: acc) (auto simp add: update_conv')

lemma map_of_newOcnMap:
  "map_of (newOcnMap x nl) k = (if k \<in> set nl then Some (RcPreRanParamDefaultOCN x) else None)"
  by (simp add: newOcnMap_def map_of_newOcnMap_aux)

lemma map_of_addNew:
  "map_of (addNew x nl m) k =
     (case map_of m k of
        Some v \<Rightarrow> Some v
      | None \<Rightarrow> if k \<in> set nl then Some (RcPreRanParamDefaultOCN x) else None)"
  unfolding addNew_def
  by (induction nl arbitrary: m) (auto simp add: update_conv' split: option.splits)

lemma map_of_deleteRemoved:
  "map_of (deleteRemoved nl m) k = (if k \<in> set nl then map_of m k else None)"
  unfolding deleteRemoved_def
  by (induction m) (auto simp add: containsIDs_iff)

lemma map_of_reconciled:
  "map_of (addNew x nl (deleteRemoved nl m0)) k =
     (if k \<in> set nl
      then (case map_of m0 k of Some v \<Rightarrow> Some v | None \<Rightarrow> Some (RcPreRanParamDefaultOCN x))
      else None)"
  by (simp add: map_of_addNew map_of_deleteRemoved split: option.splits)

lemma updateOcnLoop_Cons_ok:
  assumes "updateOcnLoop x ((C, v) # es) h = (None, h')"
  shows "\<exists>nl h1. v = Neighbors nl \<and> available (ocnStore h) \<and>
           updateOcnLoop x es h1 = (None, h') \<and> available (ocnStore h1) \<and>
           map_of (entries (ocnStore h1)) =
             (map_of (entries (ocnStore h)))
               (C \<mapsto> OcnMap (reconciled x nl (map_of (entries (ocnStore h)) C)))"
  using assms
  by (auto simp add: Get_def Put_def update_conv' reconciled_def
      split: payload.splits sum.splits option.splits if_splits)

lemma dom_reconciled: "dom (map_of (reconciled x nl old)) = set nl"
  by (auto simp add: reconciled_def map_of_reconciled map_of_newOcnMap dom_def
      split: option.splits payload.splits if_splits)

lemma reconciled_new_key:
  assumes "k \<in> set nl" and "\<forall>m0. old = Some (OcnMap m0) \<longrightarrow> k \<notin> dom (map_of m0)"
  shows "map_of (reconciled x nl old) k = Some (RcPreRanParamDefaultOCN x)"
  using assms
  by (auto simp add: reconciled_def map_of_reconciled map_of_newOcnMap dom_def
      split: option.splits payload.splits)

lemma updateOcnLoop_other:
  assumes "updateOcnLoop x es h = (None, h')" and "C \<notin> fst ` set es"
  shows "map_of (entries (ocnStore h')) C = map_of (entries (ocnStore h)) C"
  using assms
proof (induction es arbitrary: h)
  case Nil
  then show ?case by simp
next
  case (Cons e es)
  obtain C' v where e: "e = (C', v)" by (cases e)
  from Cons.prems(1) obtain nl h1 where
    h1: "updateOcnLoop x es h1 = (None, h')"
      "map_of (entries (ocnStore h1)) =
         (map_of (entries (ocnStore h)))
           (C' \<mapsto> OcnMap (reconciled x nl (map_of (entries (ocnStore h)) C')))"
    unfolding e by (blast dest: updateOcnLoop_Cons_ok)
  have "C \<noteq> C'" "C \<notin> fst ` set es"
    using Cons.prems(2) e by auto
  then show ?case
    using Cons.IH [OF h1(1)] h1(2) by simp
qed

lemma updateOcnLoop_available:
  assumes "updateOcnLoop x es h = (None, h')" and "es \<noteq> []"
  shows "available (ocnStore h')"
  using assms
proof (induction es arbitrary: h)
  case Nil
  then show ?case by simp
next
  case (Cons e es)
  obtain C' v where e: "e = (C', v)" by (cases e)
  from Cons.prems(1) obtain h1 where
    h1: "updateOcnLoop x es h1 = (None, h')" "available (ocnStore h1)"
    unfolding e by (blast dest: updateOcnLoop_Cons_ok)
  show ?case
  proof (cases es)
    case Nil
    then show ?thesis using h1 by simp
  next
    case (Cons a list)
    then show ?thesis using Cons.IH [OF h1(1)] by simp
  qed
qed

lemma updateOcnLoop_entry:
  assumes "updateOcnLoop x es h = (None, h')" and "distinct (map fst es)"
    and "(C, v) \<in> set es"
  shows "\<exists>nl. v = Neighbors nl \<and>
           map_of (entries (ocnStore h')) C =
             Some (OcnMap (reconciled x nl (map_of (entries (ocnStore h)) C)))"
  using assms
proof (induction es arbitrary: h)
  case Nil
  then show ?case by simp
next
  case (Cons e es)
  obtain C' v' where e: "e = (C', v')" by (cases e)
  from Cons.prems(1) obtain nl h1 where
    v': "v' = Neighbors nl" and
    h1: "updateOcnLoop x es h1 = (None, h')"
      "map_of (entries (ocnStore h1)) =
         (map_of (entries (ocnStore h)))
           (C' \<mapsto> OcnMap (reconciled x nl (map_of (entries (ocnStore h)) C')))"
    unfolding e by (blast dest: updateOcnLoop_Cons_ok)
  have d: "distinct (map fst es)" "C' \<notin> fst ` set es"
    using Cons.prems(2) e by auto
  show ?case
  proof (cases "C = C'")
    case True
    then have "v = v'"
      using Cons.prems(3) d(2) e by force
    moreover have "map_of (entries (ocnStore h')) C = map_of (entries (ocnStore h1)) C"
      using updateOcnLoop_other [OF h1(1)] d(2) True by simp
    ultimately show ?thesis
      using v' h1(2) True by simp
  next
    case False
    then have "(C, v) \<in> set es"
      using Cons.prems(3) e by auto
    from Cons.IH [OF h1(1) d(1) this] show ?thesis
      using h1(2) False by simp
  qed
qed

lemma cells_distinct:
  "cellA \<noteq> cellC" "cellC \<noteq> cellA" "cellA \<noteq> cellD" "cellD \<noteq> cellA"
  "cellB \<noteq> cellC" "cellC \<noteq> cellB" "cellB \<noteq> cellD" "cellD \<noteq> cellB"
  "cellC \<noteq> cellD" "cellD \<noteq> cellC"
  by (simp_all add: cellA_def cellB_def cellC_def cellD_def)

text \<open>
  C4 (confirmed). Let \<open>updateOcnStore\<close> return without error, on a neighbor store that
  holds one entry per cell. Then for every cell \<open>C\<close> of the neighbor store, with
  neighbor list \<open>neighborList\<close>, the OCN store has an offset map for \<open>C\<close> whose keys
  are exactly the cells of \<open>neighborList\<close>, and every key that the map stored for
  \<open>C\<close> before did not have (all of them when there was none) maps to the default
  offset.
\<close>

theorem reconciliation_closure:
  assumes ok: "updateOcnStore x h = (None, h')"
    and dist: "distinct (map fst (entries (neighborMeasStore h)))"
    and C: "(C, v) \<in> set (entries (neighborMeasStore h))"
  shows "\<exists>neighborList m. v = Neighbors neighborList \<and>
           Get (ocnStore h') C = Inr (OcnMap m) \<and>
           dom (map_of m) = set neighborList \<and>
           (\<forall>k \<in> set neighborList.
              (\<forall>m0. Get (ocnStore h) C = Inr (OcnMap m0) \<longrightarrow> k \<notin> dom (map_of m0)) \<longrightarrow>
              map_of m k = Some (RcPreRanParamDefaultOCN x))"
proof -
  let ?es = "entries (neighborMeasStore h)"
  have loop: "updateOcnLoop x ?es h = (None, h')"
    using ok by (simp add: updateOcnStore_def ListElements_def split: if_splits)
  have ne: "?es \<noteq> []" using C by auto
  have av': "available (ocnStore h')"
    using updateOcnLoop_available [OF loop ne] .
  obtain C0 v0 es0 where es0: "?es = (C0, v0) # es0"
    using ne by (cases ?es) auto
  have av: "available (ocnStore h)"
    using loop unfolding es0 by (blast dest: updateOcnLoop_Cons_ok)
  from updateOcnLoop_entry [OF loop dist C] obtain nl where
    nl: "v = Neighbors nl"
      "map_of (entries (ocnStore h')) C =
         Some (OcnMap (reconciled x nl (map_of (entries (ocnStore h)) C)))"
    by blast
  let ?old = "map_of (entries (ocnStore h)) C"
  let ?m = "reconciled x nl ?old"
  have g: "Get (ocnStore h') C = Inr (OcnMap ?m)"
    using av' nl(2) by (simp add: Get_def)
  have new: "map_of ?m k = Some (RcPreRanParamDefaultOCN x)"
    if "k \<in> set nl" and "\<forall>m0. Get (ocnStore h) C = Inr (OcnMap m0) \<longrightarrow> k \<notin> dom (map_of m0)"
    for k
  proof (rule reconciled_new_key [OF that(1)])
    show "\<forall>m0. ?old = Some (OcnMap m0) \<longrightarrow> k \<notin> dom (map_of m0)"
      using that(2) av by (simp add: Get_def)
  qed
  show ?thesis
    using nl(1) g dom_reconciled [of x nl ?old] new by blast
qed

theorem reconciliation_closure_witness:
  "updateOcnStore levels staleOcn =
     (None, staleOcn\<lparr>ocnStore := \<lparr>available = True,
        entries = [(cellA, OcnMap [(cellB, 12), (cellC, 15)]),
                   (cellB, OcnMap [(cellA, 15)])]\<rparr>\<rparr>) \<and>
   (\<exists>m. Get (ocnStore (snd (updateOcnStore levels staleOcn))) cellA = Inr (OcnMap m) \<and>
        dom (map_of m) = {cellB, cellC} \<and> map_of m cellC = Some 15)"
  using reconciliation_closure [of levels staleOcn "snd (updateOcnStore levels staleOcn)" cellA
      "Neighbors [cellB, cellC]"]
  by (simp add: staleOcn_def twoCells_def updateOcnStore_def ListElements_def Get_def Put_def
      newOcnMap_def addNew_def deleteRemoved_def RcPreRanParamDefaultOCN_def levels_def
      cellA_neq_cellB cells_distinct)

end
